theory Spec2Isabelle
  imports Complex_Main
begin

section \<open>Python values used by \<open>elephant/csd.py\<close>\<close>

text \<open>
  Exceptions are values: every \<^verbatim>\<open>raise\<close> of the module, and every exception that
  Python itself raises on the paths modelled here, is one constructor.  \<open>ValueError\<close>
  carries its message and the list that the method checks pass as second argument.
\<close>

datatype error =
    AttributeError string
  | ValueError string "string list"
  | TypeError string
  | IndexError string
  | UnboundLocalError string

text \<open>
  Coordinates are either \<open>quantities\<close> arrays tagged with a length unit, or plain
  sequences that have no \<^verbatim>\<open>rescale\<close> attribute.  NumPy's float64 numbers are read as
  real numbers throughout; rounding is outside this model.
\<close>

datatype length_unit = Metre | Centimetre | Millimetre | Micrometre

fun mm_per :: "length_unit \<Rightarrow> real" where
  "mm_per Metre = 1000"
| "mm_per Centimetre = 10"
| "mm_per Millimetre = 1"
| "mm_per Micrometre = 1 / 1000"

datatype coordinate = Quantity "real list" length_unit | Unitless "real list"

text \<open>\<^verbatim>\<open>coord.rescale(pq.mm)\<close>: \<open>None\<close> stands for Python's own AttributeError.\<close>

fun rescale_mm :: "coordinate \<Rightarrow> real list option" where
  "rescale_mm (Quantity xs u) = Some (map (\<lambda>x. x * mm_per u) xs)"
| "rescale_mm (Unitless xs) = None"

fun has_units :: "coordinate \<Rightarrow> bool" where
  "has_units (Quantity xs u) = True"
| "has_units (Unitless xs) = False"

fun components :: "coordinate \<Rightarrow> real list" where
  "components (Quantity xs u) = xs"
| "components (Unitless xs) = xs"

datatype potential_unit = Volt | Millivolt | Microvolt

fun mV_per :: "potential_unit \<Rightarrow> real" where
  "mV_per Volt = 1000"
| "mV_per Millivolt = 1"
| "mV_per Microvolt = 1 / 1000"

text \<open>
  A \<open>neo.AnalogSignal\<close>: its samples with their unit, the sampling metadata, and the
  coordinate of its recording channel (\<open>None\<close> when the signal has no channel or the
  channel has no coordinate).
\<close>

record analog_signal =
  magnitude :: "real list"
  units :: potential_unit
  t_start :: real
  sampling_rate :: real
  recordingchannel_coordinate :: "coordinate option"

section \<open>N-dimensional arrays\<close>

text \<open>
  A NumPy array is its shape and its elements in row-major (C) order.
\<close>

record ndarray =
  shape :: "nat list"
  data :: "real list"

definition ndim :: "ndarray \<Rightarrow> nat" where
  "ndim a = length (shape a)"

fun ravel_index :: "nat list \<Rightarrow> nat list \<Rightarrow> nat" where
  "ravel_index (n # ns) (i # is) = i * prod_list ns + ravel_index ns is"
| "ravel_index ns is = 0"

fun valid_index :: "nat list \<Rightarrow> nat list \<Rightarrow> bool" where
  "valid_index [] [] = True"
| "valid_index (n # ns) (i # is) = (i < n \<and> valid_index ns is)"
| "valid_index ns is = False"

fun all_indices :: "nat list \<Rightarrow> nat list list" where
  "all_indices [] = [[]]"
| "all_indices (n # ns) = concat (map (\<lambda>i. map ((#) i) (all_indices ns)) [0..<n])"

definition item :: "ndarray \<Rightarrow> nat list \<Rightarrow> real" where
  "item a idx = data a ! ravel_index (shape a) idx"

fun index_of :: "'a list \<Rightarrow> 'a \<Rightarrow> nat" where
  "index_of [] y = 0"
| "index_of (x # xs) y = (if x = y then 0 else Suc (index_of xs y))"

text \<open>
  \<^verbatim>\<open>a.transpose(axes)\<close>: axis \<open>i\<close> of the result is axis \<open>axes[i]\<close> of \<open>a\<close>, so the
  element at \<open>idx\<close> of the result is the element of \<open>a\<close> whose index has \<open>idx[i]\<close> at
  position \<open>axes[i]\<close>.
\<close>

definition source_index :: "nat list \<Rightarrow> nat list \<Rightarrow> nat list" where
  "source_index axes idx = map (\<lambda>j. idx ! index_of axes j) [0..<length axes]"

definition transpose_nd :: "ndarray \<Rightarrow> nat list \<Rightarrow> ndarray" where
  "transpose_nd a axes =
     (let new_shape = map (\<lambda>i. shape a ! i) axes
      in \<lparr>shape = new_shape,
          data = map (\<lambda>idx. item a (source_index axes idx)) (all_indices new_shape)\<rparr>)"

fun insert_at :: "nat \<Rightarrow> 'a \<Rightarrow> 'a list \<Rightarrow> 'a list" where
  "insert_at 0 x ys = x # ys"
| "insert_at (Suc n) x [] = [x]"
| "insert_at (Suc n) x (y # ys) = y # insert_at n x ys"

text \<open>
  \<^verbatim>\<open>np.rollaxis(a, axis, start)\<close>, following NumPy's implementation: negative
  arguments count from the end, an axis out of range is an error, and the axes list
  is built by \<^verbatim>\<open>remove\<close> and \<^verbatim>\<open>insert\<close>.
\<close>

definition rollaxis :: "ndarray \<Rightarrow> int \<Rightarrow> int \<Rightarrow> error + ndarray" where
  "rollaxis a axis start =
     (let n = int (ndim a);
          axis = (if axis < 0 then axis + n else axis);
          start = (if start < 0 then start + n else start)
      in if \<not> (0 \<le> axis \<and> axis < n) then Inl (ValueError ''rollaxis: axis out of range'' [])
         else if \<not> (0 \<le> start \<and> start < n + 1) then Inl (ValueError ''rollaxis: start out of range'' [])
         else let start = (if axis < start then start - 1 else start)
              in if axis = start then Inr a
                 else let axes = [0..<nat n];
                          axes = remove1 (nat axis) axes;
                          axes = insert_at (nat start) (nat axis) axes
                      in Inr (transpose_nd a axes))"

section \<open>The kernel estimator classes\<close>

text \<open>
  The module \<open>elephant.current_source_density.KCSD\<close> is imported by \<open>csd.py\<close> and is
  not part of the sources at hand.  Its classes are a parameter of the model: a
  constructor that may raise, \<^verbatim>\<open>cross_validate\<close> that may raise and otherwise updates
  the estimator, and the reads \<^verbatim>\<open>values()\<close>, \<^verbatim>\<open>estm_x\<close>, \<^verbatim>\<open>estm_y\<close>, \<^verbatim>\<open>estm_z\<close>.
\<close>

record ('k, 'p, 'v) kcsd_class =
  init :: "real list list \<Rightarrow> real list list \<Rightarrow> 'p \<Rightarrow> error + 'k"
  cross_validate :: "'k \<Rightarrow> (string \<times> 'v) list \<Rightarrow> error + 'k"
  values_of :: "'k \<Rightarrow> ndarray"
  estm_x :: "'k \<Rightarrow> ndarray"
  estm_y :: "'k \<Rightarrow> ndarray"
  estm_z :: "'k \<Rightarrow> ndarray"

text \<open>The calls made on the estimator, in order, with what was passed or read.\<close>

datatype event =
    Init_call string "real list list" "real list list"
  | Cross_validate_call "string list"
  | Values_call ndarray

text \<open>
  The result of \<open>CSD\<close>: a \<open>neo.AnalogSignalArray\<close> holding the estimate in
  \<open>uA / mm ** dim\<close>, the sampling metadata and the annotations.
\<close>

record csd_output =
  signal :: ndarray
  mm_exponent :: nat
  out_t_start :: real
  out_sampling_rate :: real
  annotations :: "(string \<times> ndarray) list"

section \<open>\<open>CSD\<close>\<close>

definition available_1d :: "string list" where
  "available_1d = [''KCSD1D'']"

definition available_2d :: "string list" where
  "available_2d = [''KCSD2D'', ''MoIKCSD'']"

definition available_3d :: "string list" where
  "available_3d = [''KCSD3D'']"

definition all_kernel_methods :: "string list" where
  "all_kernel_methods = [''KCSD1D'', ''KCSD2D'', ''KCSD3D'', ''MoIKCSD'']"

text \<open>Lines 64--66: the coordinates are read from the signals' recording channels.\<close>

fun coords_of_signals :: "analog_signal list \<Rightarrow> error + real list list" where
  "coords_of_signals [] = Inr []"
| "coords_of_signals (ii # rest) =
     (case recordingchannel_coordinate ii of
        None \<Rightarrow> Inl (AttributeError ''NoneType object has no attribute'')
      | Some c \<Rightarrow>
          (case rescale_mm c of
             None \<Rightarrow> Inl (AttributeError ''object has no attribute rescale'')
           | Some v \<Rightarrow>
               (case coords_of_signals rest of
                  Inl e \<Rightarrow> Inl e
                | Inr vs \<Rightarrow> Inr (v # vs))))"

text \<open>Lines 68--74: the supplied coordinates are rescaled, inside \<^verbatim>\<open>try\<close>.\<close>

fun scaled_coords :: "coordinate list \<Rightarrow> error + real list list" where
  "scaled_coords [] = Inr []"
| "scaled_coords (coord # rest) =
     (case rescale_mm coord of
        None \<Rightarrow> Inl (AttributeError ''No units given for electrode spatial coordinates'')
      | Some v \<Rightarrow>
          (case scaled_coords rest of
             Inl e \<Rightarrow> Inl e
           | Inr vs \<Rightarrow> Inr (v # vs)))"

text \<open>Lines 63--74: the two branches of \<^verbatim>\<open>if coords is None\<close>.\<close>

definition electrode_coords :: "analog_signal list \<Rightarrow> coordinate list option \<Rightarrow>
    error + real list list" where
  "electrode_coords analog_signals coords =
     (case coords of
        None \<Rightarrow> coords_of_signals analog_signals
      | Some cs \<Rightarrow> scaled_coords cs)"

text \<open>
  Lines 90--92: \<^verbatim>\<open>input_array[ii,:] = jj.rescale(pq.mV).magnitude\<close> assigns a row of
  \<open>ncols\<close> entries; NumPy broadcasts a one-element value and refuses any other length.
\<close>

definition assign_row :: "nat \<Rightarrow> real list \<Rightarrow> error + real list" where
  "assign_row ncols v =
     (if length v = ncols then Inr v
      else if length v = 1 then Inr (replicate ncols (hd v))
      else Inl (ValueError ''could not broadcast input array'' []))"

fun fill_rows :: "nat \<Rightarrow> analog_signal list \<Rightarrow> error + real list list" where
  "fill_rows ncols [] = Inr []"
| "fill_rows ncols (jj # rest) =
     (case assign_row ncols (map (\<lambda>x. x * mV_per (units jj)) (magnitude jj)) of
        Inl e \<Rightarrow> Inl e
      | Inr row \<Rightarrow>
          (case fill_rows ncols rest of
             Inl e \<Rightarrow> Inl e
           | Inr rows \<Rightarrow> Inr (row # rows)))"

definition input_array_of :: "analog_signal list \<Rightarrow> error + real list list" where
  "input_array_of analog_signals =
     (case analog_signals of
        [] \<Rightarrow> Inl (IndexError ''list index out of range'')
      | s0 # _ \<Rightarrow> fill_rows (length (magnitude s0)) analog_signals)"

text \<open>Python's \<^verbatim>\<open>x and y\<close> on two lists: \<open>y\<close> when \<open>x\<close> is non-empty, else \<open>x\<close>.\<close>

definition py_and :: "'a list \<Rightarrow> 'a list \<Rightarrow> 'a list" where
  "py_and x y = (if x \<noteq> [] then y else x)"

text \<open>Lines 105--110.\<close>

definition annotate :: "('k, 'p, 'v) kcsd_class \<Rightarrow> 'k \<Rightarrow> nat \<Rightarrow> (string \<times> ndarray) list" where
  "annotate cls k dims =
     (if dims = 1 then [(''x_coords'', estm_x cls k)]
      else if dims = 2 then [(''x_coords'', estm_x cls k), (''y_coords'', estm_y cls k)]
      else if dims = 3 then [(''x_coords'', estm_x cls k), (''y_coords'', estm_y cls k),
                            (''z_coords'', estm_z cls k)]
      else [])"

text \<open>
  Lines 96--110, once the estimator class is fetched and constructed.  The result is
  the list of further calls made on the estimator and what \<open>CSD\<close> returns or raises.
\<close>

definition estimate :: "('k, 'p, 'v) kcsd_class \<Rightarrow> 'k \<Rightarrow> string \<Rightarrow> (string \<times> 'v) list \<Rightarrow>
    analog_signal \<Rightarrow> nat \<Rightarrow> event list \<times> (error + csd_output)" where
  "estimate cls k method cv_params first_signal dims =
     (case (if method \<in> set all_kernel_methods \<and> cv_params \<noteq> [] then
              (if length (py_and (map fst cv_params) [''Rs'', ''lambdas'']) \<noteq> 2
               then ([], Inl (TypeError ''Invalid cv_params argument passed''))
               else ([Cross_validate_call (map fst cv_params)], cross_validate cls k cv_params))
            else ([], Inr k)) of
        (evs, Inl e) \<Rightarrow> (evs, Inl e)
      | (evs, Inr k') \<Rightarrow>
          (let estm_csd = values_of cls k' in
           case rollaxis estm_csd (- 1) 0 of
             Inl e \<Rightarrow> (evs @ [Values_call estm_csd], Inl e)
           | Inr rolled \<Rightarrow>
               (evs @ [Values_call estm_csd],
                Inr \<lparr>signal = rolled, mm_exponent = dims,
                     out_t_start = t_start first_signal,
                     out_sampling_rate = sampling_rate first_signal,
                     annotations = annotate cls k' dims\<rparr>)))"

definition CSD :: "(string \<Rightarrow> ('k, 'p, 'v) kcsd_class) \<Rightarrow> analog_signal list \<Rightarrow>
    coordinate list option \<Rightarrow> string option \<Rightarrow> 'p \<Rightarrow> (string \<times> 'v) list \<Rightarrow>
    event list \<times> (error + csd_output)" where
  "CSD KCSD analog_signals coords method params cv_params =
     (case electrode_coords analog_signals coords of
        Inl e \<Rightarrow> ([], Inl e)
      | Inr coords \<Rightarrow>
          (case method of
             None \<Rightarrow> ([], Inl (ValueError ''Must specify a method of CSD implementation'' []))
           | Some method \<Rightarrow>
               if length coords \<noteq> length analog_signals
               then ([], Inl (ValueError ''Number of signals and coords is not same'' []))
               else if list_ex (\<lambda>ii. length ii > 3) coords
               then ([], Inl (ValueError ''Invalid number of coordinate positions'' []))
               else
                 (case coords of
                    [] \<Rightarrow> ([], Inl (IndexError ''list index out of range''))
                  | c0 # _ \<Rightarrow>
                      (let dims = length c0 in
                       if dims = 1 \<and> method \<notin> set available_1d
                       then ([], Inl (ValueError ''Invalid method, Available options are:'' available_1d))
                       else if dims = 2 \<and> method \<notin> set available_2d
                       then ([], Inl (ValueError ''Invalid method, Available options are:'' available_2d))
                       else if dims = 3 \<and> method \<notin> set available_3d
                       then ([], Inl (ValueError ''Invalid method, Available options are:'' available_3d))
                       else
                         (case input_array_of analog_signals of
                            Inl e \<Rightarrow> ([], Inl e)
                          | Inr input_array \<Rightarrow>
                              if method \<in> set all_kernel_methods
                              then
                                (let kernel_method = KCSD method in
                                 case init kernel_method coords input_array params of
                                   Inl e \<Rightarrow> ([Init_call method coords input_array], Inl e)
                                 | Inr k \<Rightarrow>
                                     (case estimate kernel_method k method cv_params
                                             (hd analog_signals) dims of
                                        (evs, r) \<Rightarrow>
                                          (Init_call method coords input_array # evs, r)))
                              else ([], Inl (UnboundLocalError
                                       ''local variable output referenced before assignment'')))))))"

section \<open>\<open>FWD\<close>\<close>

text \<open>
  The profile passed to \<open>FWD\<close> is called with one, two or three coordinate arrays,
  depending on the dimensionality.  The profiles of the module are elementwise
  expressions, so a profile is a function of one point; calling it with the wrong
  number of arrays is Python's TypeError.
\<close>

datatype profile =
    Profile_1D "real \<Rightarrow> real"
  | Profile_2D "real \<Rightarrow> real \<Rightarrow> real"
  | Profile_3D "real \<Rightarrow> real \<Rightarrow> real \<Rightarrow> real"

text \<open>
  \<^verbatim>\<open>np.linspace(start, stop, num)\<close> and one axis of
  \<^verbatim>\<open>np.mgrid[start:stop:np.complex(0, num)]\<close>, as NumPy computes them.
\<close>

definition linspace :: "real \<Rightarrow> real \<Rightarrow> int \<Rightarrow> error + real list" where
  "linspace start stop num =
     (if num < 0 then Inl (ValueError ''Number of samples must be non-negative'' [])
      else if num = 1 then Inr [start]
      else Inr (map (\<lambda>i. start + real i * ((stop - start) / real_of_int (num - 1)))
                  [0..<nat num]))"

definition mgrid_axis :: "real \<Rightarrow> real \<Rightarrow> int \<Rightarrow> real list" where
  "mgrid_axis start stop num =
     (let n = \<bar>num\<bar>;
          step = (if n \<noteq> 1 then (stop - start) / real_of_int (n - 1) else 1)
      in map (\<lambda>i. real i * step + start) [0..<nat n])"

text \<open>
  The loop \<^verbatim>\<open>a = np.zeros(n); for ii in range(n): a[ii] = body(ii)\<close>, which stops at
  the first exception.
\<close>

function fill :: "(nat \<Rightarrow> error + real) \<Rightarrow> nat \<Rightarrow> nat \<Rightarrow> real list \<Rightarrow> error + real list" where
  "fill body n ii a =
     (if ii < n then
        (case body ii of
           Inl e \<Rightarrow> Inl e
         | Inr v \<Rightarrow> fill body n (Suc ii) (a[ii := v]))
      else Inr a)"
  by pat_completeness auto
termination
  by (relation "measure (\<lambda>(body, n, ii, a). n - ii)") auto

definition for_range :: "nat \<Rightarrow> (nat \<Rightarrow> error + real) \<Rightarrow> error + real list" where
  "for_range n body = fill body n 0 (replicate n 0)"

text \<open>\<^verbatim>\<open>a[ii]\<close> on an optional coordinate array.\<close>

definition subscript :: "real list option \<Rightarrow> nat \<Rightarrow> error + real" where
  "subscript a ii =
     (case a of
        None \<Rightarrow> Inl (TypeError ''NoneType object is not subscriptable'')
      | Some xs \<Rightarrow>
          if ii < length xs then Inr (xs ! ii)
          else Inl (IndexError ''index out of bounds''))"

text \<open>
  Lines 149--153.  \<open>scipy.integrate.simps\<close> is a library function and a parameter of
  the model; it may raise.
\<close>

definition integrate_1D :: "(real list \<Rightarrow> real list \<Rightarrow> error + real) \<Rightarrow>
    real \<Rightarrow> real list \<Rightarrow> real list \<Rightarrow> real \<Rightarrow> error + real" where
  "integrate_1D simps x0 csd_x csd h =
     (let m = map (\<lambda>x'. sqrt ((x' - x0)\<^sup>2 + h\<^sup>2) - \<bar>x' - x0\<bar>) csd_x;
          y = map2 (\<lambda>c w. c * w) csd m
      in simps y csd_x)"

text \<open>Lines 158 and 170: \<^verbatim>\<open>m[m < 0.0000001] = 0.0000001\<close>.\<close>

definition floor_distance :: "real \<Rightarrow> real" where
  "floor_distance m = (if m < 1 / 10000000 then 1 / 10000000 else m)"

text \<open>
  Lines 155--164.  The arrays \<open>X\<close>, \<open>Y\<close> and \<open>csd\<close> are lists of rows; \<^verbatim>\<open>y[:, i]\<close> is the
  list of the entries at position \<open>i\<close> of every row.
\<close>

definition integrate_2D :: "(real list \<Rightarrow> real list \<Rightarrow> error + real) \<Rightarrow>
    real \<Rightarrow> real \<Rightarrow> real list \<Rightarrow> real list \<Rightarrow> real list list \<Rightarrow> real \<Rightarrow>
    real list list \<Rightarrow> real list list \<Rightarrow> error + real" where
  "integrate_2D simps x y xlin ylin csd h X Y =
     (let Ny = length ylin;
          m = map2 (map2 (\<lambda>X' Y'. sqrt ((x - X')\<^sup>2 + (y - Y')\<^sup>2))) X Y;
          m = map (map floor_distance) m;
          y = map2 (map2 (\<lambda>m' c. arsinh (2 * h / m') * c)) m csd
      in case for_range Ny (\<lambda>i. simps (map (\<lambda>row. row ! i) y) ylin) of
           Inl e \<Rightarrow> Inl e
         | Inr I \<Rightarrow> simps I xlin)"

text \<open>Lines 166--179.  The three limits are passed and not used.\<close>

definition integrate_3D :: "(real list \<Rightarrow> real list \<Rightarrow> error + real) \<Rightarrow>
    real \<Rightarrow> real \<Rightarrow> real \<Rightarrow> real \<times> real \<Rightarrow> real \<times> real \<Rightarrow> real \<times> real \<Rightarrow>
    real list list list \<Rightarrow> real list \<Rightarrow> real list \<Rightarrow> real list \<Rightarrow>
    real list list list \<Rightarrow> real list list list \<Rightarrow> real list list list \<Rightarrow> error + real" where
  "integrate_3D simps x y z xlim ylim zlim csd xlin ylin zlin X Y Z =
     (let Nz = length zlin;
          Ny = length ylin;
          m = map2 (map2 (map2 (\<lambda>X' (Y', Z'). sqrt ((x - X')\<^sup>2 + (y - Y')\<^sup>2 + (z - Z')\<^sup>2))))
                X (map2 (map2 zip) Y Z);
          m = map (map (map floor_distance)) m;
          z = map2 (map2 (map2 (\<lambda>c m'. c / m'))) csd m
      in case for_range Ny (\<lambda>j.
                case for_range Nz (\<lambda>i. simps (map (\<lambda>plane. plane ! j ! i) z) zlin) of
                  Inl e \<Rightarrow> Inl e
                | Inr Iz \<Rightarrow> simps Iz ylin) of
           Inl e \<Rightarrow> Inl e
         | Inr Iy \<Rightarrow> simps Iy xlin)"

text \<open>Lines 194--199, 200--206 and 207--220: the three branches of \<open>FWD\<close>.\<close>

definition potentials_1D :: "(real list \<Rightarrow> real list \<Rightarrow> error + real) \<Rightarrow> profile \<Rightarrow>
    real list \<Rightarrow> real \<times> real \<Rightarrow> int \<Rightarrow> real \<Rightarrow> real \<Rightarrow> error + real list" where
  "potentials_1D simps csd_profile ele_xx xlims res sigma h =
     (case linspace (fst xlims) (snd xlims) res of
        Inl e \<Rightarrow> Inl e
      | Inr chrg_x \<Rightarrow>
          (case csd_profile of
             Profile_1D f \<Rightarrow>
               (let csd = map f chrg_x in
                case for_range (length ele_xx)
                       (\<lambda>ii. integrate_1D simps (ele_xx ! ii) chrg_x csd h) of
                  Inl e \<Rightarrow> Inl e
                | Inr pots \<Rightarrow> Inr (map (\<lambda>p. p / (2 * sigma)) pots))
           | _ \<Rightarrow> Inl (TypeError ''csd_profile called with 1 argument'')))"

definition potentials_2D :: "(real list \<Rightarrow> real list \<Rightarrow> error + real) \<Rightarrow> profile \<Rightarrow>
    real list \<Rightarrow> real list option \<Rightarrow> real \<times> real \<Rightarrow> real \<times> real \<Rightarrow> int \<Rightarrow>
    real list \<Rightarrow> real list \<Rightarrow> real \<Rightarrow> real \<Rightarrow> error + real list" where
  "potentials_2D simps csd_profile ele_xx ele_yy xlims ylims res x y sigma h =
     (let gx = mgrid_axis (fst xlims) (snd xlims) res;
          gy = mgrid_axis (fst ylims) (snd ylims) res;
          chrg_x = map (\<lambda>a. map (\<lambda>b. a) gy) gx;
          chrg_y = map (\<lambda>a. map (\<lambda>b. b) gy) gx
      in case csd_profile of
           Profile_2D f \<Rightarrow>
             (let csd = map2 (map2 f) chrg_x chrg_y in
              case for_range (length ele_xx)
                     (\<lambda>ii. case subscript ele_yy ii of
                              Inl e \<Rightarrow> Inl e
                            | Inr ey \<Rightarrow>
                                integrate_2D simps (ele_xx ! ii) ey x y csd h chrg_x chrg_y) of
                Inl e \<Rightarrow> Inl e
              | Inr pots \<Rightarrow> Inr (map (\<lambda>p. p / (2 * pi * sigma)) pots))
         | _ \<Rightarrow> Inl (TypeError ''csd_profile called with 2 arguments''))"

definition potentials_3D :: "(real list \<Rightarrow> real list \<Rightarrow> error + real) \<Rightarrow> profile \<Rightarrow>
    real list \<Rightarrow> real list option \<Rightarrow> real list option \<Rightarrow>
    real \<times> real \<Rightarrow> real \<times> real \<Rightarrow> real \<times> real \<Rightarrow> int \<Rightarrow> real \<Rightarrow> error + real list" where
  "potentials_3D simps csd_profile ele_xx ele_yy ele_zz xlims ylims zlims res sigma =
     (let gx = mgrid_axis (fst xlims) (snd xlims) res;
          gy = mgrid_axis (fst ylims) (snd ylims) res;
          gz = mgrid_axis (fst zlims) (snd zlims) res;
          chrg_x = map (\<lambda>a. map (\<lambda>b. map (\<lambda>c. a) gz) gy) gx;
          chrg_y = map (\<lambda>a. map (\<lambda>b. map (\<lambda>c. b) gz) gy) gx;
          chrg_z = map (\<lambda>a. map (\<lambda>b. map (\<lambda>c. c) gz) gy) gx
      in case csd_profile of
           Profile_3D f \<Rightarrow>
             (let csd = map2 (map2 (map2 (\<lambda>a (b, c). f a b c))) chrg_x
                          (map2 (map2 zip) chrg_y chrg_z)
              in if gx = [] then Inl (IndexError ''index 0 is out of bounds'')
                 else
                   (let xlin = map (\<lambda>plane. plane ! 0 ! 0) chrg_x;
                        ylin = map (\<lambda>row. row ! 0) (chrg_y ! 0);
                        zlin = chrg_z ! 0 ! 0
                    in case for_range (length ele_xx)
                              (\<lambda>ii. case subscript ele_yy ii of
                                       Inl e \<Rightarrow> Inl e
                                     | Inr ey \<Rightarrow>
                                         (case subscript ele_zz ii of
                                            Inl e \<Rightarrow> Inl e
                                          | Inr ez \<Rightarrow>
                                              integrate_3D simps (ele_xx ! ii) ey ez
                                                xlims ylims zlims csd
                                                xlin ylin zlin chrg_x chrg_y chrg_z)) of
                         Inl e \<Rightarrow> Inl e
                       | Inr pots \<Rightarrow> Inr (map (\<lambda>p. p / (4 * pi * sigma)) pots)))
         | _ \<Rightarrow> Inl (TypeError ''csd_profile called with 3 arguments''))"

text \<open>
  Lines 180--221.  The limits are pairs; \<open>sigma\<close> and \<open>h\<close> are the local constants of
  lines 191 and 192.
\<close>

definition FWD :: "(real list \<Rightarrow> real list \<Rightarrow> error + real) \<Rightarrow> profile \<Rightarrow>
    real list \<Rightarrow> real list option \<Rightarrow> real list option \<Rightarrow>
    real \<times> real \<Rightarrow> real \<times> real \<Rightarrow> real \<times> real \<Rightarrow> int \<Rightarrow> error + real list" where
  "FWD simps csd_profile ele_xx ele_yy ele_zz xlims ylims zlims res =
     (let dims = (1 :: nat);
          dims = (if ele_zz \<noteq> None then 3 else if ele_yy \<noteq> None then 2 else dims)
      in case linspace (fst xlims) (snd xlims) res of
           Inl e \<Rightarrow> Inl e
         | Inr x \<Rightarrow>
             (case (if dims \<ge> 2 then linspace (fst ylims) (snd ylims) res else Inr []) of
                Inl e \<Rightarrow> Inl e
              | Inr y \<Rightarrow>
                  (case (if dims = 3 then linspace (fst zlims) (snd zlims) res else Inr []) of
                     Inl e \<Rightarrow> Inl e
                   | Inr z \<Rightarrow>
                       (let sigma = 1; h = 50 in
                        if dims = 1
                        then potentials_1D simps csd_profile ele_xx xlims res sigma h
                        else if dims = 2
                        then potentials_2D simps csd_profile ele_xx ele_yy xlims ylims res
                               x y sigma h
                        else if dims = 3
                        then potentials_3D simps csd_profile ele_xx ele_yy ele_zz
                               xlims ylims zlims res sigma
                        else Inr (replicate (length ele_xx) 0)))))"

section \<open>Notions used in the statements\<close>

text \<open>
  The table of the specification: the method tags allowed for a dimensionality.  It is
  used in statements only; \<open>CSD\<close> itself tests the three lists one after the other.
\<close>

definition allowed_methods :: "nat \<Rightarrow> string list" where
  "allowed_methods d =
     (if d = 1 then available_1d
      else if d = 2 then available_2d
      else if d = 3 then available_3d
      else [])"

text \<open>
  The channel-by-time matrix that lines 90--92 build when every signal has as many
  samples as the first: each row is one signal rescaled to millivolt.
\<close>

definition potential_matrix :: "analog_signal list \<Rightarrow> real list list" where
  "potential_matrix sigs = map (\<lambda>s. map (\<lambda>x. x * mV_per (units s)) (magnitude s)) sigs"



section \<open>Example inputs\<close>

text \<open>
  A small stand-in for the estimator classes: the constructor stores a fixed
  \<open>2 \<times> 3\<close> estimate (two grid points, three time samples), cross-validation
  leaves it unchanged, and the three coordinate axes are three different arrays.
\<close>

definition example_KCSD :: "string \<Rightarrow> (ndarray, unit, real list) kcsd_class" where
  "example_KCSD m =
     \<lparr>init = (\<lambda>c i p. Inr \<lparr>shape = [2, 3], data = [1, 2, 3, 4, 5, 6]\<rparr>),
      cross_validate = (\<lambda>k cv. Inr k),
      values_of = (\<lambda>k. k),
      estm_x = (\<lambda>k. \<lparr>shape = [2], data = [0, 1]\<rparr>),
      estm_y = (\<lambda>k. \<lparr>shape = [2], data = [2, 3]\<rparr>),
      estm_z = (\<lambda>k. \<lparr>shape = [2], data = [4, 5]\<rparr>)\<rparr>"

definition example_signal :: analog_signal where
  "example_signal =
     \<lparr>magnitude = [1, 2, 3], units = Millivolt, t_start = 0, sampling_rate = 1000,
      recordingchannel_coordinate = Some (Quantity [1] Millimetre)\<rparr>"

text \<open>
  A stand-in for \<open>simps\<close> in examples: Simpson's rule on three equally spaced
  samples, and zero on a single sample.
\<close>

definition example_simps :: "real list \<Rightarrow> real list \<Rightarrow> error + real" where
  "example_simps y x =
     (case (y, x) of
        ([y0], [x0]) \<Rightarrow> Inr 0
      | ([y0, y1, y2], [x0, x1, x2]) \<Rightarrow> Inr ((x2 - x0) / 6 * (y0 + 4 * y1 + y2))
      | _ \<Rightarrow> Inl (ValueError ''unsupported sample count'' []))"

text \<open>A stand-in for \<open>simps\<close> that returns on every input: the sum of the samples.\<close>

definition example_sum :: "real list \<Rightarrow> real list \<Rightarrow> error + real" where
  "example_sum y x = Inr (sum_list y)"

section \<open>Unit normalisation of the coordinates\<close>

lemma scaled_coords_unitless:
  "list_ex (\<lambda>c. \<not> has_units c) cs \<Longrightarrow>
   scaled_coords cs = Inl (AttributeError ''No units given for electrode spatial coordinates'')"
proof (induction cs)
  case Nil
  then show ?case by simp
next
  case (Cons c cs)
  show ?case
  proof (cases c)
    case (Unitless xs)
    then show ?thesis by simp
  next
    case (Quantity xs u)
    with Cons.prems have "list_ex (\<lambda>c. \<not> has_units c) cs" by simp
    then show ?thesis using Cons.IH Quantity by simp
  qed
qed

lemma scaled_coords_Inr:
  "scaled_coords cs = Inr vs \<Longrightarrow>
   list_all has_units cs \<and> map length vs = map (length \<circ> components) cs"
proof (induction cs arbitrary: vs)
  case Nil
  then show ?case by simp
next
  case (Cons c cs)
  then show ?case
    by (cases c) (auto split: sum.splits)
qed

lemma scaled_coords_units:
  "list_all has_units cs \<Longrightarrow> \<exists>vs. scaled_coords cs = Inr vs"
proof (induction cs)
  case Nil
  then show ?case by simp
next
  case (Cons c cs)
  then show ?case by (cases c) auto
qed

text \<open>
  C7.  When coordinates are supplied and at least one of them has no units, \<open>CSD\<close>
  raises AttributeError with the message of line 73, and the estimator has not been
  called: the list of estimator calls is empty.  This holds whatever the signals, the
  method and the parameters are, since the rescaling loop is the first thing done.
\<close>

theorem CSD_unitless_coords:
  assumes "list_ex (\<lambda>c. \<not> has_units c) cs"
  shows "CSD KCSD analog_signals (Some cs) method params cv_params =
           ([], Inl (AttributeError ''No units given for electrode spatial coordinates''))"
  using scaled_coords_unitless [OF assms] by (simp add: CSD_def electrode_coords_def)

theorem CSD_unitless_coords_witness:
  "list_ex (\<lambda>c. \<not> has_units c) [Quantity [1] Millimetre, Unitless [2]] \<and>
   CSD example_KCSD [example_signal, example_signal]
     (Some [Quantity [1] Millimetre, Unitless [2]]) (Some ''KCSD1D'') () [] =
     ([], Inl (AttributeError ''No units given for electrode spatial coordinates''))"
proof -
  have h: "list_ex (\<lambda>c. \<not> has_units c) [Quantity [1] Millimetre, Unitless [2]]"
    by simp
  show ?thesis
    using h CSD_unitless_coords [OF h, of example_KCSD "[example_signal, example_signal]"
        "Some ''KCSD1D''" "()" "[]"]
    by simp
qed

section \<open>Assembling the potential matrix; the validation steps\<close>

lemma fill_rows_uniform:
  "list_all (\<lambda>s. length (magnitude s) = n) sigs \<Longrightarrow>
   fill_rows n sigs = Inr (map (\<lambda>s. map (\<lambda>x. x * mV_per (units s)) (magnitude s)) sigs)"
  by (induction sigs) (auto simp: assign_row_def)

lemma input_array_of_uniform:
  assumes "sigs \<noteq> []"
    and "list_all (\<lambda>s. length (magnitude s) = length (magnitude (hd sigs))) sigs"
  shows "input_array_of sigs =
           Inr (map (\<lambda>s. map (\<lambda>x. x * mV_per (units s)) (magnitude s)) sigs)"
  using assms fill_rows_uniform [of "length (magnitude (hd sigs))" sigs]
  by (cases sigs) (auto simp: input_array_of_def)

lemma allowed_in_all_kernel_methods:
  "m \<in> set (allowed_methods d) \<Longrightarrow> m \<in> set all_kernel_methods"
  by (auto simp: allowed_methods_def available_1d_def available_2d_def available_3d_def
      all_kernel_methods_def split: if_splits)

lemma CSD_after_validation:
  assumes coords: "electrode_coords sigs coords = Inr (c0 # rest)"
    and count: "Suc (length rest) = length sigs"
    and comps: "list_all (\<lambda>c. length c \<le> 3) (c0 # rest)"
    and meth: "m \<in> set (allowed_methods (length c0))"
    and input: "input_array_of sigs = Inr input"
  shows "CSD K sigs coords (Some m) p cv =
           (case init (K m) (c0 # rest) input p of
              Inl e \<Rightarrow> ([Init_call m (c0 # rest) input], Inl e)
            | Inr k \<Rightarrow>
                (case estimate (K m) k m cv (hd sigs) (length c0) of
                   (evs, r) \<Rightarrow> (Init_call m (c0 # rest) input # evs, r)))"
proof -
  have big: "\<not> list_ex (\<lambda>ii. length ii > 3) (c0 # rest)"
    using comps by (auto simp: list_all_iff list_ex_iff)
  have kern: "m \<in> set all_kernel_methods"
    using meth by (rule allowed_in_all_kernel_methods)
  have d: "length c0 = 1 \<or> length c0 = 2 \<or> length c0 = 3"
    using meth by (auto simp: allowed_methods_def split: if_splits)
  have ok1: "\<not> (length c0 = 1 \<and> m \<notin> set available_1d)"
    using meth by (auto simp: allowed_methods_def)
  have ok2: "\<not> (length c0 = 2 \<and> m \<notin> set available_2d)"
    using meth by (auto simp: allowed_methods_def)
  have ok3: "\<not> (length c0 = 3 \<and> m \<notin> set available_3d)"
    using meth by (auto simp: allowed_methods_def)
  show ?thesis
    unfolding CSD_def using coords count big kern ok1 ok2 ok3 input
    by (auto simp: Let_def)
qed

lemma CSD_method_rejected:
  assumes coords: "electrode_coords sigs coords = Inr (c0 # rest)"
    and d: "length c0 \<in> {1, 2, 3}"
    and meth: "m \<notin> set (allowed_methods (length c0))"
  shows "\<exists>msg args. CSD K sigs coords (Some m) p cv = ([], Inl (ValueError msg args))"
  unfolding CSD_def using assms
  by (auto simp: Let_def allowed_methods_def)

section \<open>Row-major indexing, transposition and \<open>rollaxis\<close>\<close>

lemma valid_index_length: "valid_index ns is \<Longrightarrow> length is = length ns"
  by (induction ns "is" rule: valid_index.induct) auto

lemma ravel_index_less: "valid_index ns is \<Longrightarrow> ravel_index ns is < prod_list ns"
proof (induction ns "is" rule: valid_index.induct)
  case 1
  then show ?case by simp
next
  case (2 n ns i "is")
  then have i: "i < n" and r: "ravel_index ns is < prod_list ns" by auto
  have "i * prod_list ns + ravel_index ns is < i * prod_list ns + prod_list ns"
    using r by simp
  also have "\<dots> = Suc i * prod_list ns" by simp
  also have "\<dots> \<le> n * prod_list ns"
    using i by (intro mult_le_mono1) simp
  finally show ?case by simp
qed auto

lemma length_concat_blocks:
  "(\<And>j. j < n \<Longrightarrow> length (f j) = P) \<Longrightarrow> length (concat (map f [0..<n])) = n * P"
  by (induction n) auto

lemma nth_concat_blocks:
  assumes "\<And>j. j < n \<Longrightarrow> length (f j) = P" and "i < n" and "r < P"
  shows "concat (map f [0..<n]) ! (i * P + r) = f i ! r"
  using assms
proof (induction n)
  case 0
  then show ?case by simp
next
  case (Suc n)
  have len: "length (concat (map f [0..<n])) = n * P"
    using Suc.prems(1) by (intro length_concat_blocks) simp
  show ?case
  proof (cases "i < n")
    case True
    have "i * P + r < i * P + P" using Suc.prems(3) by simp
    also have "\<dots> = Suc i * P" by simp
    also have "\<dots> \<le> n * P" using True by (intro mult_le_mono1) simp
    finally have "i * P + r < n * P" .
    then show ?thesis
      using Suc.IH [OF _ True Suc.prems(3)] Suc.prems(1) len by (simp add: nth_append)
  next
    case False
    then have "i = n" using Suc.prems(2) by simp
    then show ?thesis using len by (simp add: nth_append)
  qed
qed

lemma length_all_indices: "length (all_indices ns) = prod_list ns"
proof (induction ns)
  case Nil
  then show ?case by simp
next
  case (Cons n ns)
  have "length (concat (map (\<lambda>i. map ((#) i) (all_indices ns)) [0..<n])) = n * prod_list ns"
    by (rule length_concat_blocks) (simp add: Cons.IH)
  then show ?case by simp
qed

lemma all_indices_ravel: "valid_index ns is \<Longrightarrow> all_indices ns ! ravel_index ns is = is"
proof (induction ns "is" rule: valid_index.induct)
  case 1
  then show ?case by simp
next
  case (2 n ns i "is")
  then have i: "i < n" and v: "valid_index ns is" by auto
  have r: "ravel_index ns is < prod_list ns" using v by (rule ravel_index_less)
  have "concat (map (\<lambda>i. map ((#) i) (all_indices ns)) [0..<n]) ! (i * prod_list ns + ravel_index ns is)
        = map ((#) i) (all_indices ns) ! ravel_index ns is"
    using i r by (intro nth_concat_blocks) (simp_all add: length_all_indices)
  also have "\<dots> = i # all_indices ns ! ravel_index ns is"
    using r by (simp add: length_all_indices)
  finally show ?case using 2 v by simp
qed auto

lemma item_transpose_nd:
  assumes "valid_index (map (\<lambda>i. shape a ! i) axes) idx"
  shows "item (transpose_nd a axes) idx = item a (source_index axes idx)"
proof -
  let ?s = "map (\<lambda>i. shape a ! i) axes"
  have "ravel_index ?s idx < length (all_indices ?s)"
    using ravel_index_less [OF assms] by (simp add: length_all_indices)
  then show ?thesis
    using all_indices_ravel [OF assms]
    by (simp add: transpose_nd_def item_def Let_def)
qed

lemma index_of_upt: "i \<le> j \<Longrightarrow> j < m \<Longrightarrow> index_of [i..<m] j = j - i"
proof (induction "m - i" arbitrary: i)
  case 0
  then show ?case by simp
next
  case (Suc k)
  then have "[i..<m] = i # [Suc i..<m]" by (simp add: upt_conv_Cons)
  then show ?case using Suc by (cases "i = j") auto
qed

lemma source_index_roll:
  assumes "length idx = n"
  shows "source_index (n # [0..<n]) (t # idx) = idx @ [t]"
proof (rule nth_equalityI)
  show "length (source_index (n # [0..<n]) (t # idx)) = length (idx @ [t])"
    using assms by (simp add: source_index_def)
next
  fix j assume "j < length (source_index (n # [0..<n]) (t # idx))"
  then have j: "j < Suc n" by (simp add: source_index_def)
  show "source_index (n # [0..<n]) (t # idx) ! j = (idx @ [t]) ! j"
  proof (cases "j = n")
    case True
    have "[0..<Suc (Suc n)] ! n = n" by (metis add_0 lessI less_SucI nth_upt)
    then show ?thesis using assms True
      by (simp add: source_index_def nth_append del: upt_Suc)
  next
    case False
    then have jn: "j < n" using j by simp
    then have "[0..<Suc (Suc n)] ! j = j" by (metis add_0 less_SucI nth_upt)
    then show ?thesis using assms jn index_of_upt [of 0 j n]
      by (simp add: source_index_def nth_append del: upt_Suc)
  qed
qed

lemma remove1_last_upt: "remove1 n [0..<Suc n] = [0..<n]"
  by (simp add: remove1_append)

lemma map_nth_butlast: "map (\<lambda>i. xs ! i) [0..<length xs - 1] = butlast xs"
  by (rule nth_equalityI) (auto simp: nth_butlast)

lemma rollaxis_last_to_front:
  assumes "rollaxis a (- 1) 0 = Inr b"
  shows "shape a \<noteq> [] \<and> shape b = last (shape a) # butlast (shape a) \<and>
         (\<forall>t idx. valid_index (shape b) (t # idx) \<longrightarrow> item b (t # idx) = item a (idx @ [t]))"
proof -
  from assms have ne: "shape a \<noteq> []"
    by (auto simp: rollaxis_def ndim_def Let_def split: if_splits)
  then obtain n where n: "length (shape a) = Suc n" by (cases "shape a") auto
  show ?thesis
  proof (cases n)
    case 0
    with n assms have "b = a" by (simp add: rollaxis_def ndim_def Let_def)
    moreover from n 0 obtain s where s: "shape a = [s]" by (cases "shape a") auto
    moreover have "idx = []" if "valid_index [s] (t # idx)" for t idx
      using that by (cases idx) auto
    ultimately show ?thesis by fastforce
  next
    case (Suc k)
    have n1: "nat (1 + int k) = Suc k" and n2: "nat (2 + int k) = Suc (Suc k)"
      by simp_all
    have "remove1 (Suc k) [0..<Suc (Suc k)] = [0..<Suc k]"
      by (rule remove1_last_upt)
    then have b: "b = transpose_nd a (n # [0..<n])"
      using assms n Suc
      by (auto simp: rollaxis_def ndim_def Let_def n1 n2 simp del: upt_Suc)
    have sh: "map (\<lambda>i. shape a ! i) (n # [0..<n]) = last (shape a) # butlast (shape a)"
      using map_nth_butlast [of "shape a"] n ne by (simp add: last_conv_nth)
    have shb: "shape b = last (shape a) # butlast (shape a)"
      using b sh by (simp add: transpose_nd_def Let_def)
    have "item b (t # idx) = item a (idx @ [t])" if v: "valid_index (shape b) (t # idx)" for t idx
    proof -
      have "length (t # idx) = length (shape b)" using v by (rule valid_index_length)
      then have len: "length idx = n" using shb n ne by simp
      have "valid_index (map (\<lambda>i. shape a ! i) (n # [0..<n])) (t # idx)"
        using v shb sh by simp
      then have "item b (t # idx) = item a (source_index (n # [0..<n]) (t # idx))"
        unfolding b by (rule item_transpose_nd)
      then show ?thesis using source_index_roll [OF len] by simp
    qed
    then show ?thesis using ne shb by blast
  qed
qed

section \<open>What a successful call returns\<close>

lemma estimate_success:
  assumes "estimate cls k m cv s d = (evs, Inr out)"
  shows "\<exists>k' rolled. rollaxis (values_of cls k') (- 1) 0 = Inr rolled \<and>
           evs \<noteq> [] \<and> last evs = Values_call (values_of cls k') \<and>
           out = \<lparr>signal = rolled, mm_exponent = d, out_t_start = t_start s,
                  out_sampling_rate = sampling_rate s, annotations = annotate cls k' d\<rparr>"
  using assms unfolding estimate_def
  by (auto simp: Let_def split: if_splits sum.splits prod.splits)

lemma CSD_success:
  assumes "CSD K sigs coords method p cv = (evs, Inr out)"
  shows "\<exists>m c0 rest input k evs'. method = Some m \<and>
           electrode_coords sigs coords = Inr (c0 # rest) \<and>
           length sigs = Suc (length rest) \<and> length c0 \<le> 3 \<and>
           estimate (K m) k m cv (hd sigs) (length c0) = (evs', Inr out) \<and>
           evs = Init_call m (c0 # rest) input # evs'"
  using assms unfolding CSD_def
  by (auto simp: Let_def split: if_splits sum.splits prod.splits option.splits list.splits)

lemma CSD_example_run:
  "CSD example_KCSD [example_signal] None (Some ''KCSD1D'') () [] =
     ([Init_call ''KCSD1D'' [[1]] [[1, 2, 3]],
       Values_call \<lparr>shape = [2, 3], data = [1, 2, 3, 4, 5, 6]\<rparr>],
      Inr \<lparr>signal = \<lparr>shape = [3, 2], data = [1, 4, 2, 5, 3, 6]\<rparr>,
           mm_exponent = 1, out_t_start = 0, out_sampling_rate = 1000,
           annotations = [(''x_coords'', \<lparr>shape = [2], data = [0, 1]\<rparr>)]\<rparr>)"
  by code_simp

text \<open>
  C8.  Whenever \<open>CSD\<close> returns, the last call on the estimator read its raw estimate
  \<open>raw\<close>, which has at least one axis; the returned array has the last axis of \<open>raw\<close>
  as its first axis, followed by the other axes in their original order, and the
  element at \<open>[t, i1, ..., ik]\<close> of the result is the element at \<open>[i1, ..., ik, t]\<close>
  of \<open>raw\<close>.
\<close>

theorem CSD_time_axis_leading:
  assumes "CSD K sigs coords method p cv = (evs, Inr out)"
  shows "\<exists>raw. evs \<noteq> [] \<and> last evs = Values_call raw \<and> shape raw \<noteq> [] \<and>
           shape (signal out) = last (shape raw) # butlast (shape raw) \<and>
           (\<forall>t idx. valid_index (shape (signal out)) (t # idx) \<longrightarrow>
                item (signal out) (t # idx) = item raw (idx @ [t]))"
proof -
  from CSD_success [OF assms] obtain m c0 rest input k evs' where
    est: "estimate (K m) k m cv (hd sigs) (length c0) = (evs', Inr out)"
    and evs: "evs = Init_call m (c0 # rest) input # evs'"
    by blast
  from estimate_success [OF est] obtain k' rolled where
    roll: "rollaxis (values_of (K m) k') (- 1) 0 = Inr rolled"
    and ne: "evs' \<noteq> []" and l: "last evs' = Values_call (values_of (K m) k')"
    and out: "signal out = rolled"
    by auto
  from rollaxis_last_to_front [OF roll] out ne l evs show ?thesis
    by auto
qed

theorem CSD_time_axis_leading_witness:
  "CSD example_KCSD [example_signal] None (Some ''KCSD1D'') () [] =
     ([Init_call ''KCSD1D'' [[1]] [[1, 2, 3]],
       Values_call \<lparr>shape = [2, 3], data = [1, 2, 3, 4, 5, 6]\<rparr>],
      Inr \<lparr>signal = \<lparr>shape = [3, 2], data = [1, 4, 2, 5, 3, 6]\<rparr>,
           mm_exponent = 1, out_t_start = 0, out_sampling_rate = 1000,
           annotations = [(''x_coords'', \<lparr>shape = [2], data = [0, 1]\<rparr>)]\<rparr>) \<and>
   (\<exists>raw. [Init_call ''KCSD1D'' [[1]] [[1, 2, 3]],
            Values_call \<lparr>shape = [2, 3], data = [1, 2, 3, 4, 5, 6]\<rparr>] \<noteq> [] \<and>
      last [Init_call ''KCSD1D'' [[1]] [[1, 2, 3]],
            Values_call \<lparr>shape = [2, 3], data = [1, 2, 3, 4, 5, 6]\<rparr>] = Values_call raw \<and>
      shape raw \<noteq> [] \<and>
      [3, 2] = last (shape raw) # butlast (shape raw) \<and>
      (\<forall>t idx. valid_index [3, 2] (t # idx) \<longrightarrow>
          item \<lparr>shape = [3, 2], data = [1, 4, 2, 5, 3, 6]\<rparr> (t # idx) = item raw (idx @ [t])))"
proof -
  have h: "CSD example_KCSD [example_signal] None (Some ''KCSD1D'') () [] =
     ([Init_call ''KCSD1D'' [[1]] [[1, 2, 3]],
       Values_call \<lparr>shape = [2, 3], data = [1, 2, 3, 4, 5, 6]\<rparr>],
      Inr \<lparr>signal = \<lparr>shape = [3, 2], data = [1, 4, 2, 5, 3, 6]\<rparr>,
           mm_exponent = 1, out_t_start = 0, out_sampling_rate = 1000,
           annotations = [(''x_coords'', \<lparr>shape = [2], data = [0, 1]\<rparr>)]\<rparr>)"
    by code_simp
  show ?thesis
    using h CSD_time_axis_leading [OF h] by simp
qed

lemma annotate_keys:
  "d \<le> 3 \<Longrightarrow> map fst (annotate cls k d) = take d [''x_coords'', ''y_coords'', ''z_coords'']"
proof -
  assume "d \<le> 3"
  then consider "d = 0" | "d = 1" | "d = 2" | "d = 3" by linarith
  then show ?thesis by cases (simp_all add: annotate_def)
qed

lemma annotate_take:
  "d \<le> 3 \<Longrightarrow>
   annotate cls k d =
     take d [(''x_coords'', estm_x cls k), (''y_coords'', estm_y cls k),
             (''z_coords'', estm_z cls k)]"
proof -
  assume "d \<le> 3"
  then consider "d = 0" | "d = 1" | "d = 2" | "d = 3" by linarith
  then show ?thesis by cases (simp_all add: annotate_def)
qed

text \<open>
  C9.  Whenever \<open>CSD\<close> returns, there is a first signal, and the output has its start
  time and its sampling rate.  With \<open>d \<le> 3\<close> the number of components of the first
  electrode coordinate and \<open>k\<close> the estimator whose estimate was read last, the
  annotations are the first \<open>d\<close> of \<open>x_coords\<close>, \<open>y_coords\<close>, \<open>z_coords\<close>, each bound to
  the estimator's own axis of that name (\<open>estm_x\<close>, \<open>estm_y\<close>, \<open>estm_z\<close>): one
  coordinate array per spatial dimension.
\<close>

theorem CSD_output_metadata:
  assumes "CSD K sigs coords method p cv = (evs, Inr out)"
  shows "sigs \<noteq> [] \<and> out_t_start out = t_start (hd sigs) \<and>
         out_sampling_rate out = sampling_rate (hd sigs) \<and>
         (\<exists>c0 rest. electrode_coords sigs coords = Inr (c0 # rest) \<and> length c0 \<le> 3 \<and>
            map fst (annotations out) = take (length c0) [''x_coords'', ''y_coords'', ''z_coords''] \<and>
            (\<exists>m k. method = Some m \<and> last evs = Values_call (values_of (K m) k) \<and>
               annotations out =
                 take (length c0) [(''x_coords'', estm_x (K m) k), (''y_coords'', estm_y (K m) k),
                                   (''z_coords'', estm_z (K m) k)]))"
proof -
  from CSD_success [OF assms] obtain m c0 rest input k evs' where
    m: "method = Some m"
    and c: "electrode_coords sigs coords = Inr (c0 # rest)"
    and n: "length sigs = Suc (length rest)" and d: "length c0 \<le> 3"
    and est: "estimate (K m) k m cv (hd sigs) (length c0) = (evs', Inr out)"
    and evs: "evs = Init_call m (c0 # rest) input # evs'"
    by blast
  from estimate_success [OF est] obtain k' rolled where
    ne: "evs' \<noteq> []" and l: "last evs' = Values_call (values_of (K m) k')"
    and out: "out = \<lparr>signal = rolled, mm_exponent = length c0, out_t_start = t_start (hd sigs),
                  out_sampling_rate = sampling_rate (hd sigs),
                  annotations = annotate (K m) k' (length c0)\<rparr>"
    by auto
  have "sigs \<noteq> []" using n by auto
  moreover have "map fst (annotations out) = take (length c0) [''x_coords'', ''y_coords'', ''z_coords'']"
    using out annotate_keys [OF d] by simp
  moreover have "last evs = Values_call (values_of (K m) k')"
    using evs ne l by simp
  moreover have "annotations out =
      take (length c0) [(''x_coords'', estm_x (K m) k'), (''y_coords'', estm_y (K m) k'),
                        (''z_coords'', estm_z (K m) k')]"
    using out annotate_take [OF d] by simp
  ultimately show ?thesis using c d m out by auto
qed

theorem CSD_output_metadata_witness:
  "CSD example_KCSD [example_signal, example_signal]
      (Some [Quantity [1, 2] Millimetre, Quantity [3, 4] Millimetre]) (Some ''MoIKCSD'') () [] =
     ([Init_call ''MoIKCSD'' [[1, 2], [3, 4]] [[1, 2, 3], [1, 2, 3]],
       Values_call \<lparr>shape = [2, 3], data = [1, 2, 3, 4, 5, 6]\<rparr>],
      Inr \<lparr>signal = \<lparr>shape = [3, 2], data = [1, 4, 2, 5, 3, 6]\<rparr>,
           mm_exponent = 2, out_t_start = 0, out_sampling_rate = 1000,
           annotations = [(''x_coords'', \<lparr>shape = [2], data = [0, 1]\<rparr>),
                          (''y_coords'', \<lparr>shape = [2], data = [2, 3]\<rparr>)]\<rparr>) \<and>
   t_start (hd [example_signal, example_signal]) = 0 \<and>
   sampling_rate (hd [example_signal, example_signal]) = 1000 \<and>
   (\<exists>c0 rest. electrode_coords [example_signal, example_signal]
        (Some [Quantity [1, 2] Millimetre, Quantity [3, 4] Millimetre]) = Inr (c0 # rest) \<and>
      length c0 \<le> 3 \<and>
      [''x_coords'', ''y_coords''] = take (length c0) [''x_coords'', ''y_coords'', ''z_coords''] \<and>
      (\<exists>m k. Some ''MoIKCSD'' = Some m \<and>
         Values_call \<lparr>shape = [2, 3], data = [1, 2, 3, 4, 5, 6]\<rparr> =
           Values_call (values_of (example_KCSD m) k) \<and>
         [(''x_coords'', \<lparr>shape = [2], data = [0, 1]\<rparr>),
          (''y_coords'', \<lparr>shape = [2], data = [2, 3]\<rparr>)] =
           take (length c0) [(''x_coords'', estm_x (example_KCSD m) k),
                             (''y_coords'', estm_y (example_KCSD m) k),
                             (''z_coords'', estm_z (example_KCSD m) k)]))"
proof -
  have h: "CSD example_KCSD [example_signal, example_signal]
      (Some [Quantity [1, 2] Millimetre, Quantity [3, 4] Millimetre]) (Some ''MoIKCSD'') () [] =
     ([Init_call ''MoIKCSD'' [[1, 2], [3, 4]] [[1, 2, 3], [1, 2, 3]],
       Values_call \<lparr>shape = [2, 3], data = [1, 2, 3, 4, 5, 6]\<rparr>],
      Inr \<lparr>signal = \<lparr>shape = [3, 2], data = [1, 4, 2, 5, 3, 6]\<rparr>,
           mm_exponent = 2, out_t_start = 0, out_sampling_rate = 1000,
           annotations = [(''x_coords'', \<lparr>shape = [2], data = [0, 1]\<rparr>),
                          (''y_coords'', \<lparr>shape = [2], data = [2, 3]\<rparr>)]\<rparr>)"
    by code_simp
  show ?thesis
    using h CSD_output_metadata [OF h] by (simp add: example_signal_def)
qed

section \<open>Dimensionality is read from the first electrode only\<close>

lemma CSD_reaches_estimator:
  assumes coords: "electrode_coords sigs coords = Inr (c0 # rest)"
    and count: "Suc (length rest) = length sigs"
    and comps: "list_all (\<lambda>c. length c \<le> 3) (c0 # rest)"
    and meth: "m \<in> set (allowed_methods (length c0))"
    and uniform: "list_all (\<lambda>s. length (magnitude s) = length (magnitude (hd sigs))) sigs"
  shows "\<exists>evs r. CSD K sigs coords (Some m) p cv =
            (Init_call m (c0 # rest) (potential_matrix sigs) # evs, r) \<and>
            (\<forall>out. r = Inr out \<longrightarrow> mm_exponent out = length c0)"
proof -
  have ne: "sigs \<noteq> []" using count by auto
  have input: "input_array_of sigs = Inr (potential_matrix sigs)"
    unfolding potential_matrix_def using ne uniform by (rule input_array_of_uniform)
  note eq = CSD_after_validation [OF coords count comps meth input, of K p cv]
  show ?thesis
  proof (cases "init (K m) (c0 # rest) (potential_matrix sigs) p")
    case (Inl e)
    then show ?thesis using eq by simp
  next
    case (Inr k)
    obtain evs r where est: "estimate (K m) k m cv (hd sigs) (length c0) = (evs, r)"
      by (cases "estimate (K m) k m cv (hd sigs) (length c0)")
    have "mm_exponent out = length c0" if "r = Inr out" for out
      using estimate_success [of "K m" k m cv "hd sigs" "length c0" evs out] est that by auto
    then show ?thesis using eq Inr est by simp
  qed
qed



section \<open>The method check\<close>

text \<open>
  C2.  As stated the claim does not hold for every call: a coordinate without units
  raises AttributeError before the method is looked at, and an allowed method is
  still rejected when the numbers of coordinates and signals differ or when the
  signals cannot be stacked into one matrix.  With these earlier steps passed it
  holds.  Let the unit normalisation succeed and the first electrode have \<open>d\<close>
  components, \<open>d\<close> being 1, 2 or 3.  Then a method tag outside the allowed set of \<open>d\<close>
  makes \<open>CSD\<close> raise ValueError with no call on the estimator; and a tag in the set is
  accepted, that is the estimator class of that name is constructed with the scaled
  coordinates and the potential matrix, when the coordinates all have \<open>d\<close> components,
  there are as many of them as signals, and the signals have equally many samples.
\<close>

theorem CSD_method_check:
  assumes coords: "electrode_coords sigs coords = Inr (c0 # rest)"
    and d: "length c0 = d" "d \<in> {1, 2, 3}"
  shows "(m \<notin> set (allowed_methods d) \<longrightarrow>
            (\<exists>msg args. CSD K sigs coords (Some m) p cv = ([], Inl (ValueError msg args)))) \<and>
         (m \<in> set (allowed_methods d) \<and> Suc (length rest) = length sigs \<and>
          list_all (\<lambda>c. length c = d) rest \<and>
          list_all (\<lambda>s. length (magnitude s) = length (magnitude (hd sigs))) sigs \<longrightarrow>
            (\<exists>evs r. CSD K sigs coords (Some m) p cv =
                (Init_call m (c0 # rest) (potential_matrix sigs) # evs, r)))"
proof (intro conjI impI)
  assume "m \<notin> set (allowed_methods d)"
  then show "\<exists>msg args. CSD K sigs coords (Some m) p cv = ([], Inl (ValueError msg args))"
    using CSD_method_rejected [OF coords, of m K p cv] d by simp
next
  assume a: "m \<in> set (allowed_methods d) \<and> Suc (length rest) = length sigs \<and>
          list_all (\<lambda>c. length c = d) rest \<and>
          list_all (\<lambda>s. length (magnitude s) = length (magnitude (hd sigs))) sigs"
  have comps: "list_all (\<lambda>c. length c \<le> 3) (c0 # rest)"
    using a d by (auto simp: list_all_iff)
  from a have meth: "m \<in> set (allowed_methods (length c0))" using d by simp
  from a have count: "Suc (length rest) = length sigs" by simp
  from a have uni: "list_all (\<lambda>s. length (magnitude s) = length (magnitude (hd sigs))) sigs"
    by simp
  from CSD_reaches_estimator [OF coords count comps meth uni, of K p cv]
  show "\<exists>evs r. CSD K sigs coords (Some m) p cv =
                (Init_call m (c0 # rest) (potential_matrix sigs) # evs, r)"
    by blast
qed

theorem CSD_method_check_witness:
  "electrode_coords [example_signal, example_signal]
      (Some [Quantity [1, 2] Millimetre, Quantity [3, 4] Millimetre]) = Inr ([1, 2] # [[3, 4]]) \<and>
   ''KCSD1D'' \<notin> set (allowed_methods 2) \<and> ''MoIKCSD'' \<in> set (allowed_methods 2) \<and>
   (\<exists>msg args. CSD example_KCSD [example_signal, example_signal]
        (Some [Quantity [1, 2] Millimetre, Quantity [3, 4] Millimetre]) (Some ''KCSD1D'') () [] =
        ([], Inl (ValueError msg args))) \<and>
   (\<exists>evs r. CSD example_KCSD [example_signal, example_signal]
        (Some [Quantity [1, 2] Millimetre, Quantity [3, 4] Millimetre]) (Some ''MoIKCSD'') () [] =
        (Init_call ''MoIKCSD'' ([1, 2] # [[3, 4]])
           (potential_matrix [example_signal, example_signal]) # evs, r))"
proof -
  have h1: "electrode_coords [example_signal, example_signal]
      (Some [Quantity [1, 2] Millimetre, Quantity [3, 4] Millimetre]) = Inr ([1, 2] # [[3, 4]])"
    by (simp add: electrode_coords_def)
  have h2: "length [1, 2 :: real] = 2" by simp
  have h3: "(2 :: nat) \<in> {1, 2, 3}" by simp
  have no: "''KCSD1D'' \<notin> set (allowed_methods 2)"
    by (simp add: allowed_methods_def available_2d_def)
  have yes: "''MoIKCSD'' \<in> set (allowed_methods 2)"
    by (simp add: allowed_methods_def available_2d_def)
  show ?thesis
    using h1 no yes
      CSD_method_check [OF h1 h2 h3, of "''KCSD1D''" example_KCSD "()" "[]"]
      CSD_method_check [OF h1 h2 h3, of "''MoIKCSD''" example_KCSD "()" "[]"]
    by simp
qed

text \<open>
  The claim fails at these inputs: a one-component first electrode without units and
  the tag \<open>KCSD2D\<close> raise AttributeError, not ValueError; the allowed tag \<open>KCSD1D\<close> on
  one-component coordinates is rejected when there is one coordinate for two signals,
  and when the second signal has two samples while the first has three.
\<close>

theorem CSD_method_check_counterexample:
  "CSD example_KCSD [example_signal] (Some [Unitless [1]]) (Some ''KCSD2D'') () [] =
     ([], Inl (AttributeError ''No units given for electrode spatial coordinates'')) \<and>
   CSD example_KCSD [example_signal, example_signal] (Some [Quantity [1] Millimetre])
       (Some ''KCSD1D'') () [] =
     ([], Inl (ValueError ''Number of signals and coords is not same'' [])) \<and>
   CSD example_KCSD [example_signal, example_signal\<lparr>magnitude := [1, 2]\<rparr>]
       (Some [Quantity [1] Millimetre, Quantity [2] Millimetre]) (Some ''KCSD1D'') () [] =
     ([], Inl (ValueError ''could not broadcast input array'' []))"
  by code_simp

section \<open>The count check\<close>

lemma scaled_coords_length: "scaled_coords cs = Inr vs \<Longrightarrow> length vs = length cs"
  using scaled_coords_Inr [of cs vs] by (metis length_map)

text \<open>
  C6.  As stated the claim does not hold for every call, since the coordinates are
  rescaled before they are counted: a coordinate without units raises AttributeError
  first.  When all supplied coordinates carry units and their number differs from the
  number of signals, \<open>CSD\<close> raises ValueError, with the message of line 76 when
  no method was given and that of line 78 otherwise, and the estimator is never called.
\<close>

theorem CSD_count_mismatch:
  assumes units: "list_all has_units cs"
    and count: "length cs \<noteq> length sigs"
  shows "CSD K sigs (Some cs) method p cv =
           ([], Inl (ValueError
                 (if method = None then ''Must specify a method of CSD implementation''
                  else ''Number of signals and coords is not same'') []))"
proof -
  from scaled_coords_units [OF units] obtain vs where vs: "scaled_coords cs = Inr vs" ..
  then have "length vs \<noteq> length sigs"
    using count scaled_coords_length by metis
  then show ?thesis
    using vs by (cases "method") (simp_all add: CSD_def electrode_coords_def)
qed

theorem CSD_count_mismatch_witness:
  "list_all has_units [Quantity [1] Millimetre, Quantity [2] Millimetre, Quantity [3] Millimetre] \<and>
   length [Quantity [1] Millimetre, Quantity [2] Millimetre, Quantity [3] Millimetre] \<noteq>
     length [example_signal, example_signal, example_signal, example_signal] \<and>
   CSD example_KCSD [example_signal, example_signal, example_signal, example_signal]
       (Some [Quantity [1] Millimetre, Quantity [2] Millimetre, Quantity [3] Millimetre])
       (Some ''KCSD1D'') () [] =
     ([], Inl (ValueError ''Number of signals and coords is not same'' []))"
proof -
  have h1: "list_all has_units
      [Quantity [1] Millimetre, Quantity [2] Millimetre, Quantity [3] Millimetre]"
    by simp
  have h2: "length [Quantity [1] Millimetre, Quantity [2] Millimetre, Quantity [3] Millimetre] \<noteq>
     length [example_signal, example_signal, example_signal, example_signal]"
    by simp
  show ?thesis
    using h1 h2 CSD_count_mismatch [OF h1 h2, of example_KCSD "Some ''KCSD1D''" "()" "[]"]
    by simp
qed

text \<open>One coordinate without units for two signals: AttributeError.\<close>

theorem CSD_count_mismatch_counterexample:
  "length [Unitless [1]] \<noteq> length [example_signal, example_signal] \<and>
   CSD example_KCSD [example_signal, example_signal] (Some [Unitless [1]])
       (Some ''KCSD1D'') () [] =
     ([], Inl (AttributeError ''No units given for electrode spatial coordinates''))"
  by code_simp

section \<open>The cross-validation parameters\<close>

text \<open>
  The expression \<^verbatim>\<open>cv_params.keys() and ['Rs', 'lambdas']\<close> is the second list for every
  non-empty dictionary, so the test of line 97 compares 2 with 2 whatever the keys
  are, and the \<^verbatim>\<open>raise\<close> of line 98 is never reached.
\<close>

lemma py_and_keys_length:
  "ks \<noteq> [] \<Longrightarrow> length (py_and ks [''Rs'', ''lambdas'']) = 2"
  by (simp add: py_and_def)

text \<open>
  Hence, once the validation has passed and the constructor has returned, every
  non-empty \<open>cv_params\<close> is handed to \<^verbatim>\<open>cross_validate\<close>, after the construction.
\<close>

lemma CSD_cross_validate_reached:
  assumes coords: "electrode_coords sigs coords = Inr (c0 # rest)"
    and count: "Suc (length rest) = length sigs"
    and comps: "list_all (\<lambda>c. length c \<le> 3) (c0 # rest)"
    and meth: "m \<in> set (allowed_methods (length c0))"
    and uniform: "list_all (\<lambda>s. length (magnitude s) = length (magnitude (hd sigs))) sigs"
    and constructed: "init (K m) (c0 # rest) (potential_matrix sigs) p = Inr k"
    and nonempty: "cv \<noteq> []"
  shows "\<exists>evs r. CSD K sigs coords (Some m) p cv =
            (Init_call m (c0 # rest) (potential_matrix sigs) #
             Cross_validate_call (map fst cv) # evs, r)"
proof -
  have ne: "sigs \<noteq> []" using count by auto
  have input: "input_array_of sigs = Inr (potential_matrix sigs)"
    unfolding potential_matrix_def using ne uniform by (rule input_array_of_uniform)
  have kern: "m \<in> set all_kernel_methods"
    using meth by (rule allowed_in_all_kernel_methods)
  have check: "length (py_and (map fst cv) [''Rs'', ''lambdas'']) = 2"
    using nonempty by (simp add: py_and_keys_length)
  have "\<exists>evs r. estimate (K m) k m cv (hd sigs) (length c0) =
          (Cross_validate_call (map fst cv) # evs, r)"
    unfolding estimate_def using kern nonempty check
    by (cases "cross_validate (K m) k cv")
       (auto simp: Let_def split: sum.splits)
  then show ?thesis
    using CSD_after_validation [OF coords count comps meth input, of K p cv] constructed
    by auto
qed

text \<open>
  The call of the module's \<^verbatim>\<open>__main__\<close> block, with the key \<open>Rs\<close> alone: the estimator
  is constructed and cross-validated, and an output is returned.
\<close>

lemma CSD_main_call:
  "CSD example_KCSD [example_signal] None (Some ''KCSD1D'') ()
       [(''Rs'', [1 / 10, 1 / 4, 1 / 2])] =
     ([Init_call ''KCSD1D'' [[1]] [[1, 2, 3]],
       Cross_validate_call [''Rs''],
       Values_call \<lparr>shape = [2, 3], data = [1, 2, 3, 4, 5, 6]\<rparr>],
      Inr \<lparr>signal = \<lparr>shape = [3, 2], data = [1, 4, 2, 5, 3, 6]\<rparr>,
           mm_exponent = 1, out_t_start = 0, out_sampling_rate = 1000,
           annotations = [(''x_coords'', \<lparr>shape = [2], data = [0, 1]\<rparr>)]\<rparr>)"
  by code_simp

text \<open>
  C1.  The docstring of \<open>CSD\<close> announces TypeError for an invalid \<open>cv_params\<close>, and
  line 98 raises it, but the code does not reach it.  At \<open>cv_params = {'foo': 1}\<close>,
  whose key set is not \<open>{Rs, lambdas}\<close>, \<open>CSD\<close> raises no TypeError: the estimator is
  constructed, \<^verbatim>\<open>cross_validate\<close> is called with the key \<open>foo\<close>, the estimate is read
  and, with an estimator that does not object, an output is returned.
\<close>

theorem CSD_foreign_cv_key:
  "CSD example_KCSD [example_signal] None (Some ''KCSD1D'') () [(''foo'', [1])] =
     ([Init_call ''KCSD1D'' [[1]] [[1, 2, 3]],
       Cross_validate_call [''foo''],
       Values_call \<lparr>shape = [2, 3], data = [1, 2, 3, 4, 5, 6]\<rparr>],
      Inr \<lparr>signal = \<lparr>shape = [3, 2], data = [1, 4, 2, 5, 3, 6]\<rparr>,
           mm_exponent = 1, out_t_start = 0, out_sampling_rate = 1000,
           annotations = [(''x_coords'', \<lparr>shape = [2], data = [0, 1]\<rparr>)]\<rparr>)"
  by code_simp

section \<open>The forward model\<close>

lemma fill_all_Inr:
  "length a = n \<Longrightarrow> ii \<le> n \<Longrightarrow> (\<And>i. ii \<le> i \<Longrightarrow> i < n \<Longrightarrow> body i = Inr (v i)) \<Longrightarrow>
   fill body n ii a = Inr (take ii a @ map v [ii..<n])"
proof (induction body n ii a rule: fill.induct)
  case (1 body n ii a)
  show ?case
  proof (cases "ii < n")
    case True
    have b: "body ii = Inr (v ii)" using 1 True by simp
    have "fill body n (Suc ii) (a[ii := v ii]) =
            Inr (take (Suc ii) (a[ii := v ii]) @ map v [Suc ii..<n])"
      using 1 True b by (intro "1.IH") auto
    moreover have "take (Suc ii) (a[ii := v ii]) = take ii a @ [v ii]"
      using 1 True by (simp add: take_Suc_conv_app_nth)
    ultimately show ?thesis
      using True b by (simp add: upt_conv_Cons)
  next
    case False
    then show ?thesis using 1 by simp
  qed
qed

lemma for_range_all_Inr:
  "(\<And>i. i < n \<Longrightarrow> body i = Inr (v i)) \<Longrightarrow> for_range n body = Inr (map v [0..<n])"
  unfolding for_range_def using fill_all_Inr [of "replicate n 0" n 0 body v] by simp

lemma fill_Inr_length:
  "fill body n ii a = Inr b \<Longrightarrow> length b = length a"
  by (induction body n ii a rule: fill.induct) (auto split: if_splits sum.splits)

lemma linspace_mgrid_axis:
  "0 \<le> res \<Longrightarrow> linspace a b res = Inr (mgrid_axis a b res)"
  by (auto simp: linspace_def mgrid_axis_def Let_def add.commute)

lemma map2_same: "map2 (\<lambda>c w. c * w) (map f xs) (map g xs) = map (\<lambda>x. f x * g x) xs"
  by (induction xs) auto

text \<open>
  C4.  In a one-dimensional call (no \<open>ele_yy\<close>, no \<open>ele_zz\<close>) let \<open>chrg_x\<close> be the charge
  grid and let \<open>simps\<close> return \<open>I i\<close> on the samples
  \<open>csd x' * (sqrt ((x' - x0)\<^sup>2 + h\<^sup>2) - \<bar>x' - x0\<bar>)\<close> over the grid, for the electrode
  position \<open>x0 = ele_xx ! i\<close> and \<open>h = 50\<close>.  Then \<open>FWD\<close> returns, and the potential of
  electrode \<open>i\<close> is \<open>I i / (2 * sigma)\<close> with \<open>sigma = 1\<close>.  Both constants are fixed in
  the body of \<open>FWD\<close>, which has no parameter for them.  The arithmetic is that of the
  real numbers.
\<close>

theorem FWD_1D_potentials:
  assumes grid: "linspace (fst xlims) (snd xlims) res = Inr chrg_x"
    and simpson: "\<And>i. i < length ele_xx \<Longrightarrow>
        simps (map (\<lambda>x'. csd x' * (sqrt ((x' - ele_xx ! i)\<^sup>2 + 50\<^sup>2) - \<bar>x' - ele_xx ! i\<bar>)) chrg_x)
          chrg_x = Inr (I i)"
  shows "FWD simps (Profile_1D csd) ele_xx None None xlims ylims zlims res =
           Inr (map (\<lambda>i. I i / (2 * 1)) [0..<length ele_xx])"
proof -
  have body: "integrate_1D simps (ele_xx ! i) chrg_x (map csd chrg_x) 50 = Inr (I i)"
    if "i < length ele_xx" for i
    using simpson [OF that] by (simp add: integrate_1D_def map2_same Let_def)
  have "for_range (length ele_xx)
          (\<lambda>ii. integrate_1D simps (ele_xx ! ii) chrg_x (map csd chrg_x) 50) =
        Inr (map I [0..<length ele_xx])"
    using body by (rule for_range_all_Inr)
  then have "potentials_1D simps (Profile_1D csd) ele_xx xlims res 1 50 =
      Inr (map (\<lambda>i. I i / (2 * 1)) [0..<length ele_xx])"
    using grid by (simp add: potentials_1D_def Let_def o_def)
  then show ?thesis
    using grid by (simp add: FWD_def Let_def)
qed

theorem FWD_1D_potentials_witness:
  "linspace (fst (0, 1)) (snd (0, 1)) 3 = Inr [0, 1 / 2, 1] \<and>
   FWD example_simps (Profile_1D (\<lambda>x. 1)) [0] None None (0, 1) (0, 1) (0, 1) 3 =
     Inr [((1 - 0) / 6 *
            (1 * (sqrt ((0 - 0)\<^sup>2 + 50\<^sup>2) - \<bar>0 - 0\<bar>) +
             4 * (1 * (sqrt ((1 / 2 - 0)\<^sup>2 + 50\<^sup>2) - \<bar>1 / 2 - 0\<bar>)) +
             1 * (sqrt ((1 - 0)\<^sup>2 + 50\<^sup>2) - \<bar>1 - 0\<bar>))) / (2 * 1)]"
proof -
  let ?I = "\<lambda>i :: nat. (1 - 0) / 6 *
            (1 * (sqrt ((0 - 0)\<^sup>2 + 50\<^sup>2) - \<bar>0 - 0\<bar>) +
             4 * (1 * (sqrt ((1 / 2 - 0)\<^sup>2 + 50\<^sup>2) - \<bar>1 / 2 - 0\<bar>)) +
             1 * (sqrt ((1 - 0)\<^sup>2 + 50\<^sup>2) - \<bar>1 - 0 :: real\<bar>))"
  have h1: "linspace (fst (0, 1)) (snd (0, 1)) 3 = Inr [0, 1 / 2, 1]"
    by (simp add: linspace_def upt_rec)
  have h2: "example_simps
        (map (\<lambda>x'. (\<lambda>x. 1) x' * (sqrt ((x' - [0] ! i)\<^sup>2 + 50\<^sup>2) - \<bar>x' - [0] ! i\<bar>))
           [0, 1 / 2, 1]) [0, 1 / 2, 1] = Inr (?I i)"
    if "i < length [0 :: real]" for i
    using that by (simp add: example_simps_def)
  show ?thesis
    using h1 FWD_1D_potentials [where simps = example_simps and csd = "\<lambda>x. 1" and I = ?I,
        OF h1 h2, of "(0, 1)" "(0, 1)"]
    by simp
qed

text \<open>
  C5.  Once the resolution is accepted, \<open>FWD\<close> is its three-dimensional branch when
  \<open>ele_zz\<close> is supplied, otherwise its two-dimensional branch when \<open>ele_yy\<close> is
  supplied, otherwise its one-dimensional branch.  A negative resolution is refused
  by \<^verbatim>\<open>np.linspace\<close> in every case.
\<close>

theorem FWD_dimensionality:
  "FWD simps csd_profile ele_xx ele_yy ele_zz xlims ylims zlims res =
     (if res < 0 then Inl (ValueError ''Number of samples must be non-negative'' [])
      else if ele_zz \<noteq> None
        then potentials_3D simps csd_profile ele_xx ele_yy ele_zz xlims ylims zlims res 1
      else if ele_yy \<noteq> None
        then potentials_2D simps csd_profile ele_xx ele_yy xlims ylims res
               (mgrid_axis (fst xlims) (snd xlims) res)
               (mgrid_axis (fst ylims) (snd ylims) res) 1 50
      else potentials_1D simps csd_profile ele_xx xlims res 1 50)"
proof (cases "res < 0")
  case True
  then show ?thesis by (simp add: FWD_def linspace_def Let_def)
next
  case False
  then have "0 \<le> res" by simp
  then show ?thesis
    by (simp add: FWD_def Let_def linspace_mgrid_axis)
qed

theorem FWD_dimensionality_witness:
  "FWD example_simps (Profile_3D (\<lambda>x y z. 1)) [0] (Some [0]) (Some [0]) (0, 1) (0, 1) (0, 1) 1 =
     Inr [0] \<and>
   FWD example_simps (Profile_3D (\<lambda>x y z. 1)) [0] None (Some [0]) (0, 1) (0, 1) (0, 1) 1 =
     Inl (TypeError ''NoneType object is not subscriptable'') \<and>
   FWD example_simps (Profile_3D (\<lambda>x y z. 1)) [0] (Some [0]) None (0, 1) (0, 1) (0, 1) 1 =
     Inl (TypeError ''csd_profile called with 2 arguments'') \<and>
   FWD example_simps (Profile_2D (\<lambda>x y. 1)) [0] (Some [0]) None (0, 1) (0, 1) (0, 1) 1 =
     Inr [0] \<and>
   FWD example_simps (Profile_2D (\<lambda>x y. 1)) [0] None None (0, 1) (0, 1) (0, 1) 1 =
     Inl (TypeError ''csd_profile called with 1 argument'') \<and>
   FWD example_simps (Profile_1D (\<lambda>x. 1)) [0] None None (0, 1) (0, 1) (0, 1) 1 =
     Inr [0]"
  using FWD_dimensionality [of example_simps "Profile_3D (\<lambda>x y z. 1)" "[0]" "Some [0]" "Some [0]"
      "(0, 1)" "(0, 1)" "(0, 1)" 1]
    FWD_dimensionality [of example_simps "Profile_3D (\<lambda>x y z. 1)" "[0]" None "Some [0]"
      "(0, 1)" "(0, 1)" "(0, 1)" 1]
    FWD_dimensionality [of example_simps "Profile_3D (\<lambda>x y z. 1)" "[0]" "Some [0]" None
      "(0, 1)" "(0, 1)" "(0, 1)" 1]
    FWD_dimensionality [of example_simps "Profile_2D (\<lambda>x y. 1)" "[0]" "Some [0]" None
      "(0, 1)" "(0, 1)" "(0, 1)" 1]
    FWD_dimensionality [of example_simps "Profile_2D (\<lambda>x y. 1)" "[0]" None None
      "(0, 1)" "(0, 1)" "(0, 1)" 1]
    FWD_dimensionality [of example_simps "Profile_1D (\<lambda>x. 1)" "[0]" None None
      "(0, 1)" "(0, 1)" "(0, 1)" 1]
  by (simp add: potentials_1D_def potentials_2D_def potentials_3D_def mgrid_axis_def
      linspace_def Let_def for_range_def integrate_1D_def integrate_2D_def integrate_3D_def
      example_simps_def floor_distance_def subscript_def)



lemma floor_distance_id: "1 / 10000000 \<le> m \<Longrightarrow> floor_distance m = m"
  by (simp add: floor_distance_def)

lemma floor_distance_coincident:
  "floor_distance (sqrt ((x - x)\<^sup>2 + (y - y)\<^sup>2)) = 1 / 10000000"
  "floor_distance (sqrt ((x - x)\<^sup>2 + (y - y)\<^sup>2 + (z - z)\<^sup>2)) = 1 / 10000000"
  by (simp_all add: floor_distance_def)

section \<open>The distance floor in the two- and three-dimensional integrands\<close>



lemma nth_map2: "i < length xs \<Longrightarrow> i < length ys \<Longrightarrow> map2 f xs ys ! i = f (xs ! i) (ys ! i)"
  by simp












text \<open>
  With the summing stand-in for \<open>simps\<close>, one grid point and the electrode on it: the
  potential is the floored weight, scaled.
\<close>

lemma FWD_2D_coincident_example:
  "FWD example_sum (Profile_2D (\<lambda>x y. 1)) [0] (Some [0]) None (0, 1) (0, 1) (0, 1) 1 =
     Inr [arsinh 1000000000 / (2 * pi)]"
  by (simp add: FWD_def potentials_2D_def mgrid_axis_def linspace_def Let_def for_range_def
      integrate_2D_def example_sum_def floor_distance_def subscript_def)

lemma FWD_3D_coincident_example:
  "FWD example_sum (Profile_3D (\<lambda>x y z. 1)) [0] (Some [0]) (Some [0]) (0, 1) (0, 1) (0, 1) 1 =
     Inr [10000000 / (4 * pi)]"
  by (simp add: FWD_def potentials_3D_def mgrid_axis_def linspace_def Let_def for_range_def
      integrate_3D_def example_sum_def floor_distance_def subscript_def)



end
